theory Spec2Isabelle
  imports Main
begin

section \<open>JavaScript values and the objects the checks read\<close>

text \<open>
  The library inspects candidate values with \<^verbatim>\<open>===\<close>, \<^verbatim>\<open>typeof\<close>, property reads,
  the \<^verbatim>\<open>in\<close> operator and \<^verbatim>\<open>for ... of\<close>. A value is a primitive or a reference to
  an object; two references are strictly equal exactly when they are the same reference.
  Numbers are the integers and \<^verbatim>\<open>NaN\<close> (the only number that is not strictly equal to
  itself); symbols are numbered, and symbol \<open>0\<close> is \<^verbatim>\<open>Symbol.iterator\<close>.
\<close>

type_synonym addr = nat

datatype propkey = KStr string | KSym nat

datatype jsval =
    VUndef
  | VNull
  | VBool bool
  | VNum int
  | VNaN
  | VStr string
  | VSym nat
  | VRef addr

definition Symbol_iterator :: propkey where
  "Symbol_iterator = KSym 0"

text \<open>
  An object has its own properties, the object it inherits from, the flag that makes
  \<^verbatim>\<open>typeof\<close> answer \<^verbatim>\<open>"function"\<close>, and the finite sequence of values that iterating
  it produces (\<open>None\<close> when asking it for an iterator raises). The candidate is never
  written to, so the prototype is held by value. Properties are plain data properties.
\<close>

datatype obj =
  Obj (own: "(propkey \<times> jsval) list") (proto: "obj option") (callable: bool)
      (iterates: "jsval list option")

text \<open>
  The realm resolves a reference to its object and a primitive to the wrapper object
  its property reads go through.
\<close>

record realm =
  heap :: "addr \<Rightarrow> obj"
  boxed :: "jsval \<Rightarrow> obj"

text \<open>\<^verbatim>\<open>a === b\<close>\<close>

definition strict_eq :: "jsval \<Rightarrow> jsval \<Rightarrow> bool" where
  "strict_eq a b = (a \<noteq> VNaN \<and> a = b)"

text \<open>\<^verbatim>\<open>typeof v\<close>\<close>

fun typeof :: "realm \<Rightarrow> jsval \<Rightarrow> string" where
  "typeof r VUndef = ''undefined''"
| "typeof r VNull = ''object''"
| "typeof r (VBool b) = ''boolean''"
| "typeof r (VNum n) = ''number''"
| "typeof r VNaN = ''number''"
| "typeof r (VStr s) = ''string''"
| "typeof r (VSym n) = ''symbol''"
| "typeof r (VRef a) = (if callable (heap r a) then ''function'' else ''object'')"

text \<open>Reading a property walks the prototype chain; a missing property reads as undefined.\<close>

fun get_prop :: "obj \<Rightarrow> propkey \<Rightarrow> jsval" where
  "get_prop (Obj ps pr cl it) k =
     (case map_of ps k of
        Some v \<Rightarrow> v
      | None \<Rightarrow> (case pr of None \<Rightarrow> VUndef | Some p \<Rightarrow> get_prop p k))"

fun has_prop :: "obj \<Rightarrow> propkey \<Rightarrow> bool" where
  "has_prop (Obj ps pr cl it) k =
     (case map_of ps k of
        Some v \<Rightarrow> True
      | None \<Rightarrow> (case pr of None \<Rightarrow> False | Some p \<Rightarrow> has_prop p k))"

section \<open>Error objects and exceptions\<close>

text \<open>
  \<^verbatim>\<open>CheckErr\<close> copies every field of its constructor argument onto itself
  (\<^verbatim>\<open>Object.assign(this, arguments[0])\<close>); the fields the library passes are
  \<^verbatim>\<open>expected\<close>, \<^verbatim>\<open>received\<close>, \<^verbatim>\<open>property\<close>, \<^verbatim>\<open>errs\<close> and \<^verbatim>\<open>err\<close>, and
  \<^verbatim>\<open>property\<close> and \<^verbatim>\<open>index\<close> are also assigned afterwards by the structural checks.
  check.js returns \<^verbatim>\<open>AggregateError\<close> objects and the \<^verbatim>\<open>ErrNotIterable\<close> object in
  places where check.ts returns a \<^verbatim>\<open>CheckErr\<close>, so all three classes are error objects.
  An absent field is \<open>None\<close>. The sequences \<^verbatim>\<open>errs\<close> and \<^verbatim>\<open>errors\<close> may hold
  \<^verbatim>\<open>undefined\<close>, written \<open>None\<close>. Error objects are values here: assigning
  \<^verbatim>\<open>err.property\<close> or \<^verbatim>\<open>err.index\<close> gives the updated object.
\<close>

datatype errobj =
    CheckErr (expected_of: jsval) (received_of: jsval) (property_of: "propkey option")
             (index_of: "nat option") (errs_of: "errobj option list option")
             (err_of: "errobj option")
  | AggregateError (errors_of: "errobj option list") (property_of: "propkey option")
                   (index_of: "nat option")
  | Error (message_of: string) (property_of: "propkey option") (index_of: "nat option")

definition ErrCheckHasNoChecks :: errobj where
  "ErrCheckHasNoChecks = Error ''check called with no checks'' None None"

definition ErrExpectedFunction :: errobj where
  "ErrExpectedFunction = Error ''expected function'' None None"

definition ErrExpectedPropertyKey :: errobj where
  "ErrExpectedPropertyKey = Error ''expected property key'' None None"

definition ErrExpectedOneArgument :: errobj where
  "ErrExpectedOneArgument = Error ''expected function to take one argument'' None None"

definition ErrNotIterable :: errobj where
  "ErrNotIterable = Error ''value was not iterable'' None None"

text \<open>What a call raises: an error object thrown by the library, or the runtime's TypeError.\<close>

datatype exn = Throw errobj | TypeError

text \<open>\<^verbatim>\<open>err.property = key\<close> and \<^verbatim>\<open>err.index = i\<close>\<close>

fun set_property :: "errobj \<Rightarrow> propkey \<Rightarrow> errobj" where
  "set_property (CheckErr e rc p i es er) k = CheckErr e rc (Some k) i es er"
| "set_property (AggregateError es p i) k = AggregateError es (Some k) i"
| "set_property (Error m p i) k = Error m (Some k) i"

fun set_index :: "errobj \<Rightarrow> nat \<Rightarrow> errobj" where
  "set_index (CheckErr e rc p i es er) n = CheckErr e rc p (Some n) es er"
| "set_index (AggregateError es p i) n = AggregateError es p (Some n)"
| "set_index (Error m p i) n = Error m p (Some n)"

text \<open>
  \<^verbatim>\<open>v[k]\<close> raises TypeError on null and undefined; \<^verbatim>\<open>v?.constructor\<close> reads undefined
  there instead; \<^verbatim>\<open>k in v\<close> raises TypeError unless \<open>v\<close> is an object;
  \<^verbatim>\<open>for (const x of v)\<close> raises TypeError when \<open>v\<close> gives no iterator.
\<close>

fun to_object :: "realm \<Rightarrow> jsval \<Rightarrow> exn + obj" where
  "to_object r VUndef = Inl TypeError"
| "to_object r VNull = Inl TypeError"
| "to_object r (VRef a) = Inr (heap r a)"
| "to_object r v = Inr (boxed r v)"

definition get_v :: "realm \<Rightarrow> jsval \<Rightarrow> propkey \<Rightarrow> exn + jsval" where
  "get_v r v k = (case to_object r v of Inl e \<Rightarrow> Inl e | Inr ob \<Rightarrow> Inr (get_prop ob k))"

definition opt_constructor :: "realm \<Rightarrow> jsval \<Rightarrow> jsval" where
  "opt_constructor r v =
     (case to_object r v of Inl e \<Rightarrow> VUndef | Inr ob \<Rightarrow> get_prop ob (KStr ''constructor''))"

fun js_in :: "realm \<Rightarrow> propkey \<Rightarrow> jsval \<Rightarrow> exn + bool" where
  "js_in r k (VRef a) = Inr (has_prop (heap r a) k)"
| "js_in r k v = Inl TypeError"

fun iterate :: "realm \<Rightarrow> jsval \<Rightarrow> exn + jsval list" where
  "iterate r (VRef a) = (case iterates (heap r a) of None \<Rightarrow> Inl TypeError | Some xs \<Rightarrow> Inr xs)"
| "iterate r (VStr s) = Inr (map (\<lambda>c. VStr [c]) s)"
| "iterate r v = Inl TypeError"

section \<open>Checks\<close>

text \<open>
  A check maps a candidate to undefined (\<open>None\<close>, success) or to an error object, or
  raises. Where a check is passed as an argument it is a JavaScript value: a function
  object (its reference, its \<^verbatim>\<open>length\<close> and its behaviour) or something that is not
  a function. Every function the factories return is written \<^verbatim>\<open>function(received)\<close>,
  so its \<^verbatim>\<open>length\<close> is 1. Calling a value that is not a function raises TypeError.
\<close>

type_synonym check = "realm \<Rightarrow> jsval \<Rightarrow> exn + errobj option"

datatype checkarg = Fn addr nat check | NonFn jsval

fun call :: "checkarg \<Rightarrow> check" where
  "call (Fn a n f) = f"
| "call (NonFn v) = (\<lambda>r x. Inl TypeError)"

fun val_of :: "checkarg \<Rightarrow> jsval" where
  "val_of (Fn a n f) = VRef a"
| "val_of (NonFn v) = v"

text \<open>Constructing a check and applying it, an exception of either step propagating.\<close>

definition run :: "exn + check \<Rightarrow> check" where
  "run made r v = (case made of Inl e \<Rightarrow> Inl e | Inr c \<Rightarrow> c r v)"

subsection \<open>Result\<close>

record Result =
  errors :: "errobj list"

definition isValid :: "Result \<Rightarrow> bool" where
  "isValid res = (length (errors res) = 0)"

text \<open>
  \<^verbatim>\<open>must()\<close> throws \<^verbatim>\<open>new AggregateError(this.errors)\<close> or returns, the Result as it was.
\<close>

definition must :: "Result \<Rightarrow> exn + Result" where
  "must res =
     (if length (errors res) > 0
      then Inl (Throw (AggregateError (map Some (errors res)) None None))
      else Inr res)"

subsection \<open>Argument validation of check.js\<close>

definition checkCheck :: "checkarg \<Rightarrow> exn + unit" where
  "checkCheck c =
     (case c of
        NonFn v \<Rightarrow> Inl (Throw ErrExpectedFunction)
      | Fn a n f \<Rightarrow> if n \<noteq> 1 then Inl (Throw ErrExpectedOneArgument) else Inr ())"

fun checkChecks_loop :: "checkarg list \<Rightarrow> exn + unit" where
  "checkChecks_loop [] = Inr ()"
| "checkChecks_loop (c # cs) =
     (case checkCheck c of Inl e \<Rightarrow> Inl e | Inr u \<Rightarrow> checkChecks_loop cs)"

definition checkChecks :: "checkarg list \<Rightarrow> exn + unit" where
  "checkChecks checks =
     (if length checks = 0 then Inl (Throw ErrCheckHasNoChecks) else checkChecks_loop checks)"

subsection \<open>The entrypoint \<^verbatim>\<open>check(received, ...checks)\<close>\<close>

fun check_loop :: "realm \<Rightarrow> jsval \<Rightarrow> checkarg list \<Rightarrow> Result \<Rightarrow> exn + Result" where
  "check_loop r received [] res = Inr res"
| "check_loop r received (c # cs) res =
     (case call c r received of
        Inl e \<Rightarrow> Inl e
      | Inr None \<Rightarrow> check_loop r received cs res
      | Inr (Some e) \<Rightarrow>
          check_loop r received cs (res\<lparr>errors := errors res @ [e]\<rparr>))"

definition check_ts :: "realm \<Rightarrow> jsval \<Rightarrow> checkarg list \<Rightarrow> exn + Result" where
  "check_ts r received checks =
     (if length checks = 0 then Inl (Throw ErrCheckHasNoChecks)
      else check_loop r received checks \<lparr>errors = []\<rparr>)"

definition check_js :: "realm \<Rightarrow> jsval \<Rightarrow> checkarg list \<Rightarrow> exn + Result" where
  "check_js r received checks =
     (case checkChecks checks of
        Inl e \<Rightarrow> Inl e
      | Inr u \<Rightarrow> check_loop r received checks \<lparr>errors = []\<rparr>)"

section \<open>The leaf predicate factories \<^verbatim>\<open>expect.*\<close>\<close>

text \<open>
  A rest parameter (\<^verbatim>\<open>...expected\<close>, \<^verbatim>\<open>...checks\<close>) is an array object created by
  the call; \<open>arr\<close> is its reference and the list its elements.
\<close>

subsection \<open>\<^verbatim>\<open>any\<close>, \<^verbatim>\<open>value\<close>, \<^verbatim>\<open>not\<close> (the same text in check.ts and check.js)\<close>

text \<open>
  The loop of \<^verbatim>\<open>any\<close> runs once per element and compares \<^verbatim>\<open>received === expected\<close>,
  the array, each time; \<open>True\<close> is the early \<^verbatim>\<open>return\<close>.
\<close>

fun any_loop :: "jsval \<Rightarrow> jsval \<Rightarrow> jsval list \<Rightarrow> bool" where
  "any_loop received expected [] = False"
| "any_loop received expected (x # xs) =
     (if strict_eq received expected then True else any_loop received expected xs)"

definition expect_any :: "addr \<Rightarrow> jsval list \<Rightarrow> check" where
  "expect_any arr elems = (\<lambda>r received.
     if any_loop received (VRef arr) elems then Inr None
     else Inr (Some (CheckErr (VRef arr) received None None None None)))"

definition expect_value :: "jsval \<Rightarrow> check" where
  "expect_value expected = (\<lambda>r received.
     if strict_eq received expected then Inr None
     else Inr (Some (CheckErr expected received None None None None)))"

text \<open>
  The loop of \<^verbatim>\<open>not\<close> continues while \<^verbatim>\<open>received !== expected\<close>, the array, and
  returns the error object otherwise; falling out of the loop returns undefined.
\<close>

fun not_loop :: "jsval \<Rightarrow> jsval \<Rightarrow> jsval list \<Rightarrow> errobj option" where
  "not_loop received expected [] = None"
| "not_loop received expected (x # xs) =
     (if \<not> strict_eq received expected then not_loop received expected xs
      else Some (CheckErr expected received None None None None))"

definition expect_not :: "addr \<Rightarrow> jsval list \<Rightarrow> check" where
  "expect_not arr elems = (\<lambda>r received. Inr (not_loop received (VRef arr) elems))"

subsection \<open>\<^verbatim>\<open>type\<close>\<close>

text \<open>check.ts compares \<^verbatim>\<open>received?.constructor === expected\<close>.\<close>

definition expect_type_ts :: "jsval \<Rightarrow> check" where
  "expect_type_ts expected = (\<lambda>r received.
     if strict_eq (opt_constructor r received) expected then Inr None
     else Inr (Some (CheckErr expected (opt_constructor r received) None None None None)))"

text \<open>
  check.js first requires \<^verbatim>\<open>typeof expected\<close> to be \<^verbatim>\<open>"function"\<close> and then compares
  \<^verbatim>\<open>typeof received?.constructor === expected\<close>. \<open>r0\<close> is the realm at construction.
\<close>

definition expect_type_js :: "realm \<Rightarrow> jsval \<Rightarrow> exn + check" where
  "expect_type_js r0 expected =
     (if typeof r0 expected \<noteq> ''function'' then Inl (Throw ErrExpectedFunction)
      else Inr (\<lambda>r received.
        if strict_eq (VStr (typeof r (opt_constructor r received))) expected then Inr None
        else Inr (Some (CheckErr expected (opt_constructor r received) None None None None))))"

subsection \<open>\<^verbatim>\<open>property\<close>\<close>

text \<open>
  \<^verbatim>\<open>received[property]\<close> is read for the comparison and again for the error object;
  the first read raises on null and undefined.
\<close>

definition expect_property_ts :: "propkey \<Rightarrow> jsval \<Rightarrow> check" where
  "expect_property_ts prop expected = (\<lambda>r received.
     case get_v r received prop of
       Inl e \<Rightarrow> Inl e
     | Inr x \<Rightarrow>
         if strict_eq x expected then Inr None
         else Inr (Some (CheckErr expected x (Some prop) None None None)))"

text \<open>
  check.js takes any value as the key and requires \<^verbatim>\<open>typeof\<close> to answer \<^verbatim>\<open>"string"\<close>
  or \<^verbatim>\<open>"symbol"\<close>, which it does exactly on strings and symbols.
\<close>

definition expect_property_js :: "jsval \<Rightarrow> jsval \<Rightarrow> exn + check" where
  "expect_property_js prop expected =
     (case prop of
        VStr s \<Rightarrow> Inr (expect_property_ts (KStr s) expected)
      | VSym n \<Rightarrow> Inr (expect_property_ts (KSym n) expected)
      | _ \<Rightarrow> Inl (Throw ErrExpectedPropertyKey))"

subsection \<open>\<^verbatim>\<open>properties\<close>\<close>

text \<open>
  The argument is an object whose values are checks: \<open>mp\<close> is the object and \<open>entries\<close>
  its own enumerable string-keyed properties in the order of \<^verbatim>\<open>Object.keys\<close>, each key
  with the value \<^verbatim>\<open>expected[key]\<close>. The loop calls \<^verbatim>\<open>expected[key](received[key])\<close>.
\<close>

fun properties_loop ::
  "realm \<Rightarrow> jsval \<Rightarrow> (string \<times> checkarg) list \<Rightarrow> errobj option list \<Rightarrow> exn + errobj option list"
where
  "properties_loop r received [] errs = Inr errs"
| "properties_loop r received ((key, c) # rest) errs =
     (case get_v r received (KStr key) of
        Inl e \<Rightarrow> Inl e
      | Inr x \<Rightarrow>
          (case call c r x of
             Inl e \<Rightarrow> Inl e
           | Inr None \<Rightarrow> properties_loop r received rest errs
           | Inr (Some e) \<Rightarrow>
               properties_loop r received rest (errs @ [Some (set_property e (KStr key))])))"

definition expect_properties_ts :: "jsval \<Rightarrow> (string \<times> checkarg) list \<Rightarrow> exn + check" where
  "expect_properties_ts mp entries =
     (if length (map snd entries) = 0 then Inl (Throw ErrCheckHasNoChecks)
      else Inr (\<lambda>r received.
        case properties_loop r received entries [] of
          Inl e \<Rightarrow> Inl e
        | Inr errs \<Rightarrow>
            if length errs > 0 then Inr (Some (CheckErr mp received None None (Some errs) None))
            else Inr None))"

text \<open>
  check.js validates with \<^verbatim>\<open>checkChecks(Object.values(object))\<close>: the array of values,
  whose reference is \<open>vals\<close>, is the one argument, not spread.
\<close>

definition expect_properties_js ::
  "addr \<Rightarrow> jsval \<Rightarrow> (string \<times> checkarg) list \<Rightarrow> exn + check"
where
  "expect_properties_js vals mp entries =
     (case checkChecks [NonFn (VRef vals)] of
        Inl e \<Rightarrow> Inl e
      | Inr u \<Rightarrow> Inr (\<lambda>r received.
          case properties_loop r received entries [] of
            Inl e \<Rightarrow> Inl e
          | Inr errs \<Rightarrow>
              if length errs > 0 then Inr (Some (AggregateError errs None None))
              else Inr None))"

subsection \<open>\<^verbatim>\<open>forOf\<close>\<close>

fun forOf_loop ::
  "checkarg \<Rightarrow> realm \<Rightarrow> jsval list \<Rightarrow> nat \<Rightarrow> errobj option list \<Rightarrow> exn + errobj option list"
where
  "forOf_loop chk r [] i errs = Inr errs"
| "forOf_loop chk r (v # rest) i errs =
     (case call chk r v of
        Inl e \<Rightarrow> Inl e
      | Inr None \<Rightarrow> forOf_loop chk r rest (i + 1) errs
      | Inr (Some e) \<Rightarrow> forOf_loop chk r rest (i + 1) (errs @ [Some (set_index e i)]))"

definition expect_forOf_ts :: "checkarg \<Rightarrow> check" where
  "expect_forOf_ts chk = (\<lambda>r received.
     case js_in r Symbol_iterator received of
       Inl e \<Rightarrow> Inl e
     | Inr has \<Rightarrow>
         if \<not> has
         then Inr (Some (CheckErr (val_of chk) received None None None (Some ErrNotIterable)))
         else (case iterate r received of
                 Inl e \<Rightarrow> Inl e
               | Inr vs \<Rightarrow>
                   (case forOf_loop chk r vs 0 [] of
                      Inl e \<Rightarrow> Inl e
                    | Inr errs \<Rightarrow>
                        if length errs > 0
                        then Inr (Some (CheckErr (val_of chk) received None None (Some errs) None))
                        else Inr None)))"

definition expect_forOf_js :: "checkarg \<Rightarrow> exn + check" where
  "expect_forOf_js chk =
     (case checkCheck chk of
        Inl e \<Rightarrow> Inl e
      | Inr u \<Rightarrow> Inr (\<lambda>r received.
          case js_in r Symbol_iterator received of
            Inl e \<Rightarrow> Inl e
          | Inr has \<Rightarrow>
              if \<not> has then Inr (Some ErrNotIterable)
              else (case iterate r received of
                      Inl e \<Rightarrow> Inl e
                    | Inr vs \<Rightarrow>
                        (case forOf_loop chk r vs 0 [] of
                           Inl e \<Rightarrow> Inl e
                         | Inr errs \<Rightarrow>
                             if length errs > 0 then Inr (Some (AggregateError errs None None))
                             else Inr None))))"

section \<open>The logical combinators \<^verbatim>\<open>logic.*\<close>\<close>

text \<open>
  The loop of \<^verbatim>\<open>and\<close> continues when the sub-check's answer is not undefined and
  pushes the answer, undefined, otherwise.
\<close>

fun and_loop ::
  "realm \<Rightarrow> jsval \<Rightarrow> checkarg list \<Rightarrow> errobj option list \<Rightarrow> exn + errobj option list"
where
  "and_loop r received [] errs = Inr errs"
| "and_loop r received (c # cs) errs =
     (case call c r received of
        Inl e \<Rightarrow> Inl e
      | Inr (Some e) \<Rightarrow> and_loop r received cs errs
      | Inr None \<Rightarrow> and_loop r received cs (errs @ [None]))"

definition logic_and_ts :: "addr \<Rightarrow> checkarg list \<Rightarrow> check" where
  "logic_and_ts arr checks = (\<lambda>r received.
     case and_loop r received checks [] of
       Inl e \<Rightarrow> Inl e
     | Inr errs \<Rightarrow>
         if length errs > 0
         then Inr (Some (CheckErr (VRef arr) received None None (Some errs) None))
         else Inr None)"

definition logic_and_js :: "checkarg list \<Rightarrow> exn + check" where
  "logic_and_js checks =
     (case checkChecks checks of
        Inl e \<Rightarrow> Inl e
      | Inr u \<Rightarrow> Inr (\<lambda>r received.
          case and_loop r received checks [] of
            Inl e \<Rightarrow> Inl e
          | Inr errs \<Rightarrow>
              if length errs > 0 then Inr (Some (AggregateError errs None None))
              else Inr None))"

text \<open>
  The loop of \<^verbatim>\<open>or\<close> returns undefined at the first sub-check that answers undefined;
  \<open>None\<close> is that early return, \<open>Some errs\<close> the end of the loop. In check.ts the error
  object's \<^verbatim>\<open>expected\<close> is the name \<^verbatim>\<open>check\<close>, which there denotes the module's
  entrypoint function; \<open>entry\<close> is that function.
\<close>

fun or_loop ::
  "realm \<Rightarrow> jsval \<Rightarrow> checkarg list \<Rightarrow> errobj option list
     \<Rightarrow> exn + errobj option list option"
where
  "or_loop r received [] errs = Inr (Some errs)"
| "or_loop r received (c # cs) errs =
     (case call c r received of
        Inl e \<Rightarrow> Inl e
      | Inr None \<Rightarrow> Inr None
      | Inr (Some e) \<Rightarrow> or_loop r received cs (errs @ [Some e]))"

definition logic_or_ts :: "jsval \<Rightarrow> checkarg list \<Rightarrow> check" where
  "logic_or_ts entry checks = (\<lambda>r received.
     case or_loop r received checks [] of
       Inl e \<Rightarrow> Inl e
     | Inr None \<Rightarrow> Inr None
     | Inr (Some errs) \<Rightarrow> Inr (Some (CheckErr entry received None None (Some errs) None)))"

definition logic_or_js :: "checkarg list \<Rightarrow> exn + check" where
  "logic_or_js checks =
     (case checkChecks checks of
        Inl e \<Rightarrow> Inl e
      | Inr u \<Rightarrow> Inr (\<lambda>r received.
          case or_loop r received checks [] of
            Inl e \<Rightarrow> Inl e
          | Inr None \<Rightarrow> Inr None
          | Inr (Some errs) \<Rightarrow> Inr (Some (AggregateError errs None None))))"

section \<open>Vocabulary of the properties\<close>

text \<open>
  What the properties below speak of, for a check passed as an argument, a realm and a
  candidate: the check returns (it does not raise); it fails (it returns an error
  object); the error objects a list of checks returns, in the order of the list; and
  the check is one check.js accepts (a function of one parameter).
\<close>

definition returns :: "realm \<Rightarrow> jsval \<Rightarrow> checkarg \<Rightarrow> bool" where
  "returns r v c = (case call c r v of Inl e \<Rightarrow> False | Inr y \<Rightarrow> True)"

definition fails :: "realm \<Rightarrow> jsval \<Rightarrow> checkarg \<Rightarrow> bool" where
  "fails r v c =
     (case call c r v of Inl e \<Rightarrow> False | Inr None \<Rightarrow> False | Inr (Some e) \<Rightarrow> True)"

fun reported :: "realm \<Rightarrow> jsval \<Rightarrow> checkarg list \<Rightarrow> errobj list" where
  "reported r v [] = []"
| "reported r v (c # cs) =
     (case call c r v of
        Inl e \<Rightarrow> reported r v cs
      | Inr None \<Rightarrow> reported r v cs
      | Inr (Some e) \<Rightarrow> e # reported r v cs)"

definition accepted :: "checkarg \<Rightarrow> bool" where
  "accepted c = (case c of Fn a n f \<Rightarrow> n = 1 | NonFn v \<Rightarrow> False)"

text \<open>
  For \<^verbatim>\<open>properties\<close>: a named sub-check returns on its field of the object, and the
  error objects of the failing sub-checks, each carrying its key, in the order of the keys.
\<close>

definition field_returns :: "realm \<Rightarrow> obj \<Rightarrow> string \<times> checkarg \<Rightarrow> bool" where
  "field_returns r ob entry = returns r (get_prop ob (KStr (fst entry))) (snd entry)"

fun annotated :: "realm \<Rightarrow> obj \<Rightarrow> (string \<times> checkarg) list \<Rightarrow> errobj option list" where
  "annotated r ob [] = []"
| "annotated r ob ((key, c) # rest) =
     (case call c r (get_prop ob (KStr key)) of
        Inl e \<Rightarrow> annotated r ob rest
      | Inr None \<Rightarrow> annotated r ob rest
      | Inr (Some e) \<Rightarrow> Some (set_property e (KStr key)) # annotated r ob rest)"

subsection \<open>A realm for the examples\<close>

text \<open>
  References 0 to 3 are the constructors \<^verbatim>\<open>Function\<close>, \<^verbatim>\<open>Object\<close>, \<^verbatim>\<open>Array\<close> and
  \<^verbatim>\<open>Number\<close>, 10 is the array \<^verbatim>\<open>[]\<close>, 11 the object \<^verbatim>\<open>{}\<close>, 12 the object
  \<^verbatim>\<open>{a: 2}\<close>; every other reference is a function. Only numbers are given their
  wrapper object.
\<close>

definition Function_prototype :: obj where
  "Function_prototype = Obj [(KStr ''constructor'', VRef 0)] None True None"

definition Object_prototype :: obj where
  "Object_prototype = Obj [(KStr ''constructor'', VRef 1)] None False None"

definition Array_prototype :: obj where
  "Array_prototype =
     Obj [(KStr ''constructor'', VRef 2), (Symbol_iterator, VRef 4)]
       (Some Object_prototype) False None"

definition Number_prototype :: obj where
  "Number_prototype =
     Obj [(KStr ''constructor'', VRef 3)] (Some Object_prototype) False None"

definition example_realm :: realm where
  "example_realm =
     \<lparr>heap = (\<lambda>a.
        if a = 10 then Obj [(KStr ''length'', VNum 0)] (Some Array_prototype) False (Some [])
        else if a = 11 then Obj [] (Some Object_prototype) False None
        else if a = 12 then Obj [(KStr ''a'', VNum 2)] (Some Object_prototype) False None
        else Obj [] (Some Function_prototype) True None),
      boxed = (\<lambda>v. Obj [] (Some Number_prototype) False None)\<rparr>"

section \<open>What the loops compute\<close>

lemma strict_eq_ref: "strict_eq v (VRef a) = (v = VRef a)"
  by (auto simp: strict_eq_def)

lemma any_loop_iff: "any_loop v e xs = (xs \<noteq> [] \<and> strict_eq v e)"
  by (induction xs) auto

lemma not_loop_eq:
  "not_loop v e xs =
     (if xs \<noteq> [] \<and> strict_eq v e then Some (CheckErr e v None None None None) else None)"
  by (induction xs) auto

lemma length_reported: "length (reported r v cs) = length (filter (fails r v) cs)"
  by (induction cs) (auto simp: fails_def split: sum.splits option.splits)

lemma check_loop_returns:
  "list_all (returns r v) cs \<Longrightarrow>
     check_loop r v cs res = Inr (res\<lparr>errors := errors res @ reported r v cs\<rparr>)"
proof (induction cs arbitrary: res)
  case Nil
  show ?case by simp
next
  case (Cons c cs)
  from Cons.prems have rest: "list_all (returns r v) cs" by simp
  from Cons.prems obtain y where y: "call c r v = Inr y"
    by (auto simp: returns_def split: sum.splits)
  show ?case
  proof (cases y)
    case None
    with y Cons.IH [OF rest] show ?thesis by simp
  next
    case (Some e)
    with y Cons.IH [OF rest, of "res\<lparr>errors := errors res @ [e]\<rparr>"] show ?thesis by simp
  qed
qed

lemma check_loop_Inr_returns:
  "check_loop r v cs res = Inr res' \<Longrightarrow> list_all (returns r v) cs"
  by (induction cs arbitrary: res) (auto simp: returns_def split: sum.splits option.splits)

lemma checkChecks_accepted:
  "cs \<noteq> [] \<Longrightarrow> list_all accepted cs \<Longrightarrow> checkChecks cs = Inr ()"
proof -
  have "list_all accepted xs \<Longrightarrow> checkChecks_loop xs = Inr ()" for xs
    by (induction xs) (auto simp: accepted_def checkCheck_def split: checkarg.splits)
  then show "cs \<noteq> [] \<Longrightarrow> list_all accepted cs \<Longrightarrow> checkChecks cs = Inr ()"
    by (simp add: checkChecks_def)
qed

lemma and_loop_returns:
  "list_all (returns r v) cs \<Longrightarrow>
     and_loop r v cs errs = Inr (errs @ map (\<lambda>c. None) (filter (\<lambda>c. \<not> fails r v c) cs))"
proof (induction cs arbitrary: errs)
  case Nil
  show ?case by simp
next
  case (Cons c cs)
  from Cons.prems have rest: "list_all (returns r v) cs" by simp
  from Cons.prems obtain y where y: "call c r v = Inr y"
    by (auto simp: returns_def split: sum.splits)
  show ?case
  proof (cases y)
    case None
    with y Cons.IH [OF rest, of "errs @ [None]"] show ?thesis by (simp add: fails_def)
  next
    case (Some e)
    with y Cons.IH [OF rest, of errs] show ?thesis by (simp add: fails_def)
  qed
qed

lemma logic_and_ts_succeeds_iff:
  assumes "list_all (returns r v) cs"
  shows "logic_and_ts arr cs r v = Inr None \<longleftrightarrow> list_all (fails r v) cs"
proof -
  have "filter (\<lambda>c. \<not> fails r v c) cs = [] \<longleftrightarrow> list_all (fails r v) cs"
    by (induction cs) auto
  with and_loop_returns [OF assms, of "[]"] show ?thesis
    by (simp add: logic_and_ts_def)
qed

lemma properties_loop_returns:
  assumes "to_object r v = Inr ob"
  shows "list_all (field_returns r ob) entries \<Longrightarrow>
     properties_loop r v entries errs = Inr (errs @ annotated r ob entries)"
proof (induction entries arbitrary: errs)
  case Nil
  show ?case by simp
next
  case (Cons entry rest)
  obtain key c where entry: "entry = (key, c)" by (cases entry)
  from Cons.prems have tl: "list_all (field_returns r ob) rest" by simp
  from Cons.prems entry obtain y where y: "call c r (get_prop ob (KStr key)) = Inr y"
    by (auto simp: field_returns_def returns_def split: sum.splits)
  have g: "get_v r v (KStr key) = Inr (get_prop ob (KStr key))"
    using assms by (simp add: get_v_def)
  show ?case
  proof (cases y)
    case None
    with y g entry Cons.IH [OF tl, of errs] show ?thesis by simp
  next
    case (Some e)
    with y g entry Cons.IH [OF tl, of "errs @ [Some (set_property e (KStr key))]"]
    show ?thesis by simp
  qed
qed

lemma expect_properties_ts_spec:
  assumes "entries \<noteq> []" and "to_object r v = Inr ob"
    and "list_all (field_returns r ob) entries"
  shows "run (expect_properties_ts mp entries) r v =
     (if annotated r ob entries = [] then Inr None
      else Inr (Some (CheckErr mp v None None (Some (annotated r ob entries)) None)))"
  using assms properties_loop_returns [OF assms(2,3), of "[]"]
  by (simp add: run_def expect_properties_ts_def)

lemma expect_properties_js_always_raises:
  "expect_properties_js vals mp entries = Inl (Throw ErrExpectedFunction)"
  by (simp add: expect_properties_js_def checkChecks_def checkCheck_def)

lemma expect_forOf_object_without_iterator:
  assumes "\<not> has_prop (heap r a) Symbol_iterator"
  shows "expect_forOf_ts chk r (VRef a) =
           Inr (Some (CheckErr (val_of chk) (VRef a) None None None (Some ErrNotIterable)))"
    and "accepted chk \<Longrightarrow> run (expect_forOf_js chk) r (VRef a) = Inr (Some ErrNotIterable)"
  using assms
  by (auto simp: expect_forOf_ts_def expect_forOf_js_def run_def checkCheck_def accepted_def
      split: checkarg.splits)

lemma expect_forOf_primitive_raises:
  assumes "\<forall>a. v \<noteq> VRef a"
  shows "expect_forOf_ts chk r v = Inl TypeError"
  using assms by (cases v) (auto simp: expect_forOf_ts_def)

lemma expect_type_js_never_succeeds:
  "expect_type_js r0 ctor = Inr c \<Longrightarrow> c r v \<noteq> Inr None"
  by (cases ctor) (auto simp: expect_type_js_def strict_eq_def split: if_splits)

lemma expect_type_ts_succeeds_iff:
  "expect_type_ts ctor r v = Inr None \<longleftrightarrow> strict_eq (opt_constructor r v) ctor"
  by (simp add: expect_type_ts_def)

lemma expect_any_succeeds_iff:
  "expect_any arr elems r v = Inr None \<longleftrightarrow> (elems \<noteq> [] \<and> v = VRef arr)"
  by (simp add: expect_any_def any_loop_iff strict_eq_ref)

lemma expect_not_fails_iff:
  "expect_not arr elems r v \<noteq> Inr None \<longleftrightarrow> (elems \<noteq> [] \<and> v = VRef arr)"
  by (simp add: expect_not_def not_loop_eq strict_eq_ref)

section \<open>The evaluation entrypoint and the Result\<close>

text \<open>
  C3. For a non-empty list of checks and any value, the Result that \<^verbatim>\<open>check\<close> returns
  holds exactly the error objects of the checks that return one, in the order of the
  checks, so its length is the number of failing checks. \<^verbatim>\<open>check\<close> of check.ts returns
  a Result when every check returns, \<^verbatim>\<open>check\<close> of check.js when moreover every check
  is a function of one parameter; and whenever either returns a Result, it is that one.
\<close>

theorem check_reports_each_failure:
  assumes "checks \<noteq> []"
  shows "(list_all (returns r v) checks \<longrightarrow>
            check_ts r v checks = Inr \<lparr>errors = reported r v checks\<rparr>)
       \<and> (list_all (returns r v) checks \<and> list_all accepted checks \<longrightarrow>
            check_js r v checks = Inr \<lparr>errors = reported r v checks\<rparr>)
       \<and> (\<forall>res. check_ts r v checks = Inr res \<or> check_js r v checks = Inr res \<longrightarrow>
            errors res = reported r v checks
            \<and> length (errors res) = length (filter (fails r v) checks))"
proof (intro conjI impI allI)
  assume "list_all (returns r v) checks"
  with assms show "check_ts r v checks = Inr \<lparr>errors = reported r v checks\<rparr>"
    by (simp add: check_ts_def check_loop_returns)
next
  assume "list_all (returns r v) checks \<and> list_all accepted checks"
  with assms show "check_js r v checks = Inr \<lparr>errors = reported r v checks\<rparr>"
    by (simp add: check_js_def check_loop_returns checkChecks_accepted)
next
  fix res
  assume "check_ts r v checks = Inr res \<or> check_js r v checks = Inr res"
  then have loop: "check_loop r v checks \<lparr>errors = []\<rparr> = Inr res"
    by (auto simp: check_ts_def check_js_def split: if_splits sum.splits)
  then have "list_all (returns r v) checks" by (rule check_loop_Inr_returns)
  from check_loop_returns [OF this, of "\<lparr>errors = []\<rparr>"] loop
  show "errors res = reported r v checks" by simp
  then show "length (errors res) = length (filter (fails r v) checks)"
    by (simp add: length_reported)
qed

text \<open>
  At \<^verbatim>\<open>check(5, expect.value(5), expect.value(6))\<close>: one of the two checks fails, and
  the Result holds its error object.
\<close>

theorem check_reports_each_failure_witness:
  "[Fn 20 1 (expect_value (VNum 5)), Fn 21 1 (expect_value (VNum 6))] \<noteq> []
   \<and> list_all (returns example_realm (VNum 5))
        [Fn 20 1 (expect_value (VNum 5)), Fn 21 1 (expect_value (VNum 6))]
   \<and> list_all accepted [Fn 20 1 (expect_value (VNum 5)), Fn 21 1 (expect_value (VNum 6))]
   \<and> check_ts example_realm (VNum 5)
        [Fn 20 1 (expect_value (VNum 5)), Fn 21 1 (expect_value (VNum 6))]
       = Inr \<lparr>errors = [CheckErr (VNum 6) (VNum 5) None None None None]\<rparr>
   \<and> check_js example_realm (VNum 5)
        [Fn 20 1 (expect_value (VNum 5)), Fn 21 1 (expect_value (VNum 6))]
       = Inr \<lparr>errors = [CheckErr (VNum 6) (VNum 5) None None None None]\<rparr>
   \<and> length (filter (fails example_realm (VNum 5))
        [Fn 20 1 (expect_value (VNum 5)), Fn 21 1 (expect_value (VNum 6))]) = 1"
proof -
  let ?cs = "[Fn 20 1 (expect_value (VNum 5)), Fn 21 1 (expect_value (VNum 6))]"
  have ne: "?cs \<noteq> []" by simp
  have ret: "list_all (returns example_realm (VNum 5)) ?cs"
    by (simp add: returns_def expect_value_def)
  have acc: "list_all accepted ?cs" by (simp add: accepted_def)
  have rep: "reported example_realm (VNum 5) ?cs =
      [CheckErr (VNum 6) (VNum 5) None None None None]"
    by (simp add: expect_value_def strict_eq_def)
  have fl: "length (filter (fails example_realm (VNum 5)) ?cs) = 1"
    by (simp add: fails_def expect_value_def strict_eq_def)
  from check_reports_each_failure [OF ne, of example_realm "VNum 5"] ret acc rep fl
  show ?thesis by simp
qed

text \<open>
  C9. \<^verbatim>\<open>Result.must()\<close> returns, the Result as it was, when \<^verbatim>\<open>errors\<close> is empty, and
  otherwise throws one \<^verbatim>\<open>AggregateError\<close> whose \<^verbatim>\<open>errors\<close> are exactly the accumulated
  error objects in their order.
\<close>

theorem must_noop_or_aggregate:
  "(errors res = [] \<longrightarrow> must res = Inr res)
   \<and> (errors res \<noteq> [] \<longrightarrow>
        must res = Inl (Throw (AggregateError (map Some (errors res)) None None)))"
  by (simp add: must_def)

text \<open>On the empty Result, and on a Result of two error objects.\<close>

theorem must_noop_or_aggregate_witness:
  "must \<lparr>errors = []\<rparr> = Inr \<lparr>errors = []\<rparr>
   \<and> must \<lparr>errors = [ErrNotIterable, CheckErr (VNum 6) (VNum 5) None None None None]\<rparr> =
       Inl (Throw (AggregateError
         [Some ErrNotIterable, Some (CheckErr (VNum 6) (VNum 5) None None None None)]
         None None))"
  using must_noop_or_aggregate [of "\<lparr>errors = []\<rparr>"]
    must_noop_or_aggregate
      [of "\<lparr>errors = [ErrNotIterable, CheckErr (VNum 6) (VNum 5) None None None None]\<rparr>"]
  by simp

text \<open>
  C4. With an empty check list, \<^verbatim>\<open>check\<close> throws \<^verbatim>\<open>ErrCheckHasNoChecks\<close> in both
  files, and so do \<^verbatim>\<open>logic.and\<close> and \<^verbatim>\<open>logic.or\<close> of check.js at construction.
  \<^verbatim>\<open>logic.and()\<close> and \<^verbatim>\<open>logic.or()\<close> of check.ts do not: they have no such test and
  return a check, the first succeeding on every value, the second failing on every
  value with an empty \<^verbatim>\<open>errs\<close>.
\<close>

theorem empty_check_list:
  "check_ts r v [] = Inl (Throw ErrCheckHasNoChecks)
   \<and> check_js r v [] = Inl (Throw ErrCheckHasNoChecks)
   \<and> logic_and_js [] = Inl (Throw ErrCheckHasNoChecks)
   \<and> logic_or_js [] = Inl (Throw ErrCheckHasNoChecks)
   \<and> logic_and_ts arr [] r v = Inr None
   \<and> logic_or_ts entry [] r v = Inr (Some (CheckErr entry v None None (Some []) None))"
  by (simp add: check_ts_def check_js_def logic_and_js_def logic_or_js_def checkChecks_def
      logic_and_ts_def logic_or_ts_def)

section \<open>The leaf predicates\<close>

text \<open>
  C1. \<^verbatim>\<open>expect.any(1)(1)\<close>: the value strictly equals a candidate, yet the check
  returns the error object with \<^verbatim>\<open>expected\<close> the candidate array and \<^verbatim>\<open>received\<close> the
  value, since the loop compares the value with the array and not with its elements
  (\<open>expect_any_succeeds_iff\<close>: it succeeds only on that very array).
\<close>

theorem expect_any_rejects_its_candidate:
  "expect_any arr [VNum 1] r (VNum 1) =
     Inr (Some (CheckErr (VRef arr) (VNum 1) None None None None))"
  by (simp add: expect_any_def strict_eq_def)

text \<open>
  C6. \<^verbatim>\<open>expect.not(1)(1)\<close>: the value strictly equals an excluded value, yet the check
  returns undefined, since the loop compares the value with the array of excluded
  values and not with its elements (\<open>expect_not_fails_iff\<close>: it fails only on that
  very array).
\<close>

theorem expect_not_accepts_excluded:
  "expect_not arr [VNum 1] r (VNum 1) = Inr None"
  by (simp add: expect_not_def strict_eq_def)

text \<open>
  C5. \<^verbatim>\<open>expect.type(Array)([])\<close> of check.js fails, with \<^verbatim>\<open>expected\<close> and \<^verbatim>\<open>received\<close>
  both \<^verbatim>\<open>Array\<close>: it compares the string \<^verbatim>\<open>typeof received?.constructor\<close> with the
  constructor (\<open>expect_type_js_never_succeeds\<close>). The check of check.ts succeeds
  there and fails on \<^verbatim>\<open>{}\<close> with \<^verbatim>\<open>{expected: Array, received: Object}\<close>
  (\<open>expect_type_ts_succeeds_iff\<close>: it succeeds exactly when the value's constructor is
  the expected one).
\<close>

theorem expect_type_js_rejects_array:
  "run (expect_type_js example_realm (VRef 2)) example_realm (VRef 10) =
     Inr (Some (CheckErr (VRef 2) (VRef 2) None None None None))
   \<and> expect_type_ts (VRef 2) example_realm (VRef 10) = Inr None
   \<and> expect_type_ts (VRef 2) example_realm (VRef 11) =
       Inr (Some (CheckErr (VRef 2) (VRef 1) None None None None))"
  by (simp add: run_def expect_type_js_def expect_type_ts_def example_realm_def
      opt_constructor_def strict_eq_def Array_prototype_def Object_prototype_def
      Function_prototype_def Symbol_iterator_def)

text \<open>
  C10. For every property key and expected value, the check of \<^verbatim>\<open>expect.property\<close>
  applied to null or to undefined raises TypeError, in check.ts and, where the key is
  the string or symbol check.js requires, in check.js: the read \<^verbatim>\<open>received[property]\<close>
  is unguarded, and no error object is returned.
\<close>

theorem expect_property_nullish_raises:
  "expect_property_ts k e r VNull = Inl TypeError
   \<and> expect_property_ts k e r VUndef = Inl TypeError
   \<and> (\<exists>c. expect_property_js (case k of KStr s \<Rightarrow> VStr s | KSym n \<Rightarrow> VSym n) e = Inr c
          \<and> c r VNull = Inl TypeError \<and> c r VUndef = Inl TypeError)"
  by (cases k) (simp_all add: expect_property_ts_def expect_property_js_def get_v_def)

text \<open>
  C8. \<^verbatim>\<open>expect.properties({a: expect.value(1)})\<close> of check.js throws
  \<^verbatim>\<open>ErrExpectedFunction\<close> at construction, as it does for every map
  (\<open>expect_properties_js_always_raises\<close>): the array of the map's values is validated
  as if it were one check. The check of check.ts is constructed and, applied to
  \<^verbatim>\<open>{a: 2}\<close>, returns one \<^verbatim>\<open>CheckErr\<close> whose \<^verbatim>\<open>errs\<close> holds exactly one error object,
  with \<^verbatim>\<open>property\<close> the key \<^verbatim>\<open>"a"\<close> (\<open>expect_properties_ts_spec\<close> for any non-empty
  map).
\<close>

theorem expect_properties_js_raises:
  "expect_properties_js vals mp [(''a'', Fn a 1 (expect_value (VNum 1)))] =
     Inl (Throw ErrExpectedFunction)
   \<and> run (expect_properties_ts mp [(''a'', Fn a 1 (expect_value (VNum 1)))])
       example_realm (VRef 12) =
     Inr (Some (CheckErr mp (VRef 12) None None
       (Some [Some (CheckErr (VNum 1) (VNum 2) (Some (KStr ''a'')) None None None)]) None))"
  by (simp add: expect_properties_js_def expect_properties_ts_def run_def checkChecks_def
      checkCheck_def example_realm_def get_v_def expect_value_def strict_eq_def)

text \<open>
  C7. \<^verbatim>\<open>expect.forOf(c)(42)\<close> raises TypeError in both files: the test
  \<^verbatim>\<open>Symbol.iterator in received\<close> itself raises on a value that is not an object, before
  \<^verbatim>\<open>ErrNotIterable\<close> can be reported. (On an object without an iterator the report is
  made: \<open>expect_forOf_object_without_iterator\<close>.)
\<close>

theorem expect_forOf_number_raises:
  "expect_forOf_ts c r (VNum 42) = Inl TypeError
   \<and> run (expect_forOf_js (Fn a 1 f)) r (VNum 42) = Inl TypeError"
  by (simp add: expect_forOf_ts_def expect_forOf_js_def run_def checkCheck_def)

section \<open>The logical combinators\<close>

text \<open>
  C2. \<^verbatim>\<open>logic.and(expect.value(5))\<close>: on 5 the one sub-check succeeds, yet the
  combinator fails, with an aggregate whose sequence holds \<^verbatim>\<open>undefined\<close>, the answer
  of the succeeding sub-check; on 6 the sub-check fails, yet the combinator succeeds.
  The loop skips the sub-checks that fail and collects those that succeed
  (\<open>logic_and_ts_succeeds_iff\<close>: it succeeds exactly when every sub-check fails).
\<close>

theorem logic_and_inverted:
  "logic_and_ts arr [Fn a 1 (expect_value (VNum 5))] r (VNum 5) =
     Inr (Some (CheckErr (VRef arr) (VNum 5) None None (Some [None]) None))
   \<and> run (logic_and_js [Fn a 1 (expect_value (VNum 5))]) r (VNum 5) =
     Inr (Some (AggregateError [None] None None))
   \<and> logic_and_ts arr [Fn a 1 (expect_value (VNum 5))] r (VNum 6) = Inr None
   \<and> run (logic_and_js [Fn a 1 (expect_value (VNum 5))]) r (VNum 6) = Inr None"
  by (simp add: logic_and_ts_def logic_and_js_def run_def checkChecks_def checkCheck_def
      expect_value_def strict_eq_def)

end
